theory Spec2Isabelle
  imports Complex_Main "HOL-Library.Char_ord" "HOL-Library.List_Lexorder"
    "HOL-Library.Product_Lexorder" "HOL-Library.Multiset"
begin

section \<open>The UK population dashboard: tables, preprocessing, filters and charts\<close>

text \<open>
  The program is one script, \<^verbatim>\<open>for_streamlit.py\<close>. It reads two CSV tables, preprocesses
  them once, and rebuilds three charts from the current widget selections. A data frame is
  modelled as the list of its rows, in row order; a row is a record whose fields are the
  columns. Several tables have columns of the same name, so fields are written with the
  record's name in front (\<open>raw_row.name\<close>, \<open>melted_row.name\<close>).

  The development covers the preprocessing and sections 1 (density) and 3 (gender comparison)
  of the script; the chart of section 2 (age distribution) is not part of it.

  Modelling decisions, all of them about the library calls the script makes:
  \<^item> every cell of a table is populated: a missing value (pandas' NaN in a \<open>name\<close>, \<open>sex\<close> or
    population column) is outside the model. The one NaN the script itself can produce, the
    band of an age that lies in no bin, is modelled (\<open>None\<close>);
  \<^item> a cell of the raw \<open>age\<close> column is a string or an integer, as \<^verbatim>\<open>read_csv\<close> gives them;
  \<^item> strings are ASCII, compared byte by byte in lexicographic order, as Python compares them;
  \<^item> a population is an \<open>int\<close>: the int64 sums of pandas are the integer sums as long as the
    totals stay inside the int64 range, which is the case the model describes;
  \<^item> the floating point columns of the density table are never computed with, only copied
    into the chart, so their type is a parameter \<open>'f\<close> of the density rows;
  \<^item> a sort on one column uses numpy's default algorithm, which may order rows of equal key
    either way; the model sorts stably, and the properties shown for that sort (same rows,
    ascending keys) are properties of every sort. A sort on several columns is stable in
    pandas as well.
\<close>

subsection \<open>Errors\<close>

datatype error = ValueError | OverflowError

fun mapE :: "('a \<Rightarrow> error + 'b) \<Rightarrow> 'a list \<Rightarrow> error + 'b list" where
  "mapE f [] = Inr []"
| "mapE f (x # xs) =
     (case f x of
        Inl e \<Rightarrow> Inl e
      | Inr y \<Rightarrow> (case mapE f xs of Inl e \<Rightarrow> Inl e | Inr ys \<Rightarrow> Inr (y # ys)))"

subsection \<open>Python's \<open>int\<close> on a string, and \<open>astype(int)\<close>\<close>

text \<open>
  \<^verbatim>\<open>astype(int)\<close> on a column of Python objects calls \<^verbatim>\<open>int\<close> on each cell and stores the
  result as an int64. \<^verbatim>\<open>int\<close> on a string skips white space at both ends, reads one
  optional sign, and then wants decimal digits, where single underscores may stand between
  two digits, and at most 4300 digits (the default limit of Python 3.11 and of the later
  releases of the versions before it); anything else is a \<^verbatim>\<open>ValueError\<close>. A value outside
  the int64 range is an \<^verbatim>\<open>OverflowError\<close>.
\<close>

datatype cell = StrCell string | IntCell int

definition is_space :: "char \<Rightarrow> bool" where
  "is_space c = (c \<in> set [CHR 0x09, CHR 0x0A, CHR 0x0B, CHR 0x0C, CHR 0x0D, CHR '' ''])"

definition is_digit :: "char \<Rightarrow> bool" where
  "is_digit c = (CHR ''0'' \<le> c \<and> c \<le> CHR ''9'')"

definition digit_val :: "char \<Rightarrow> int" where
  "digit_val c = int (of_char c) - 48"

fun digits_ok :: "bool \<Rightarrow> string \<Rightarrow> bool" where
  "digits_ok prev [] = prev"
| "digits_ok prev (c # cs) =
     (if is_digit c then digits_ok True cs
      else if c = CHR ''_'' then prev \<and> digits_ok False cs
      else False)"

definition digits_value :: "string \<Rightarrow> int" where
  "digits_value s = foldl (\<lambda>a c. 10 * a + digit_val c) 0 (filter is_digit s)"

definition max_str_digits :: nat where
  "max_str_digits = 4300"

definition py_int :: "string \<Rightarrow> error + int" where
  "py_int s =
     (let t = dropWhile is_space s;
          (sgn, u) = (case t of
                        [] \<Rightarrow> (1, t)
                      | c # r \<Rightarrow> if c = CHR ''+'' then (1, r)
                                 else if c = CHR ''-'' then (- 1, r)
                                 else (1, t));
          body = rev (dropWhile is_space (rev u))
      in if digits_ok False body \<and> length (filter is_digit body) \<le> max_str_digits
         then Inr (sgn * digits_value body) else Inl ValueError)"

definition int64_min :: int where "int64_min = - (2 ^ 63)"
definition int64_max :: int where "int64_max = 2 ^ 63 - 1"

definition astype_int :: "cell \<Rightarrow> error + int" where
  "astype_int c =
     (case (case c of IntCell n \<Rightarrow> Inr n | StrCell s \<Rightarrow> py_int s) of
        Inl e \<Rightarrow> Inl e
      | Inr n \<Rightarrow> if int64_min \<le> n \<and> n \<le> int64_max then Inr n else Inl OverflowError)"

definition replace :: "cell \<Rightarrow> cell \<Rightarrow> cell \<Rightarrow> cell" where
  "replace to_replace val c = (if c = to_replace then val else c)"

text \<open>Python's \<^verbatim>\<open>str\<close> of an integer, used by the f-strings of the chart titles.\<close>

fun str_nat :: "nat \<Rightarrow> string" where
  "str_nat n =
     (if n < 10 then [char_of (48 + n)]
      else str_nat (n div 10) @ [char_of (48 + n mod 10)])"

declare str_nat.simps [simp del]

definition str_int :: "int \<Rightarrow> string" where
  "str_int i = (if i < 0 then CHR ''-'' # str_nat (nat (- i)) else str_nat (nat i))"

subsection \<open>\<open>pd.cut\<close> with right-closed bins\<close>

datatype edge = Fin int | PosInf

fun edge_less :: "edge \<Rightarrow> int \<Rightarrow> bool" where
  "edge_less (Fin a) v = (a < v)"
| "edge_less PosInf v = False"

fun le_edge :: "int \<Rightarrow> edge \<Rightarrow> bool" where
  "le_edge v (Fin b) = (v \<le> b)"
| "le_edge v PosInf = True"

text \<open>
  \<^verbatim>\<open>pd.cut(v, bins, labels, right=True)\<close>: the label of the first bin \<open>(lo, hi]\<close> that holds
  \<open>v\<close>, and NaN (\<open>None\<close>) when no bin does. The lowest edge is not included.
\<close>

fun pd_cut :: "int \<Rightarrow> edge list \<Rightarrow> string list \<Rightarrow> string option" where
  "pd_cut v (lo # hi # es) (l # ls) =
     (if edge_less lo v \<and> le_edge v hi then Some l else pd_cut v (hi # es) ls)"
| "pd_cut v es ls = None"

definition bins :: "edge list" where
  "bins = [Fin (- 1), Fin 17, Fin 24, Fin 39, Fin 59, Fin 74, PosInf]"

definition labels :: "string list" where
  "labels = [''0-17'', ''18-24'', ''25-39'', ''40-59'', ''60-74'', ''75+'']"

subsection \<open>The age/gender tables\<close>

record raw_row =
  name :: string
  sex :: string
  age :: cell
  population_2011 :: int
  population_2022 :: int

record detail_row = raw_row +
  age_numeric :: int
  age_band :: "string option"

record melted_row =
  name :: string
  sex :: string
  age :: cell
  age_numeric :: int
  age_band :: "string option"
  Population :: int
  Year :: int

text \<open>
  Lines 41 to 49: the detail table is the raw table with two more columns. The script
  computes each column for the whole table before the next; since only the first step can
  fail, computing both for one row after the other gives the same result.
\<close>

definition detail_of :: "raw_row \<Rightarrow> error + detail_row" where
  "detail_of r =
     (case astype_int (replace (StrCell ''90+'') (IntCell 90) (raw_row.age r)) of
        Inl e \<Rightarrow> Inl e
      | Inr n \<Rightarrow> Inr \<lparr>raw_row.name = raw_row.name r, raw_row.sex = raw_row.sex r,
                      raw_row.age = raw_row.age r,
                      raw_row.population_2011 = raw_row.population_2011 r,
                      raw_row.population_2022 = raw_row.population_2022 r,
                      detail_row.age_numeric = n,
                      detail_row.age_band = pd_cut n bins labels\<rparr>)"

text \<open>
  A long-form row: the five identifier columns of a detail row \<open>d\<close>, a year \<open>y\<close> and
  a population \<open>p\<close>.
\<close>

definition long_form :: "detail_row \<Rightarrow> int \<Rightarrow> int \<Rightarrow> melted_row" where
  "long_form d y p =
     \<lparr>melted_row.name = raw_row.name d,
      melted_row.sex = raw_row.sex d,
      melted_row.age = raw_row.age d,
      melted_row.age_numeric = detail_row.age_numeric d,
      melted_row.age_band = detail_row.age_band d,
      melted_row.Population = p, melted_row.Year = y\<rparr>"

text \<open>
  Lines 51 to 56: \<^verbatim>\<open>melt\<close> lays the table out once for each value column, in the order
  of \<^verbatim>\<open>value_vars\<close>, and keeps the column's name beside the value.
\<close>

definition value_vars :: "(string \<times> (detail_row \<Rightarrow> int)) list" where
  "value_vars = [(''population_2011'', raw_row.population_2011),
                 (''population_2022'', raw_row.population_2022)]"

definition melt :: "detail_row list \<Rightarrow> (detail_row \<times> string \<times> int) list" where
  "melt detail = concat (map (\<lambda>(col, get). map (\<lambda>d. (d, col, get d)) detail) value_vars)"

text \<open>
  Line 57: \<^verbatim>\<open>str.extract(r'(\d+)')\<close> takes the first run of digits of the column name
  (NaN when there is none), and \<^verbatim>\<open>astype(int)\<close> reads it.
\<close>

definition extract_digits :: "string \<Rightarrow> string option" where
  "extract_digits s =
     (let t = dropWhile (\<lambda>c. \<not> is_digit c) s
      in if t = [] then None else Some (takeWhile is_digit t))"

definition Year_of :: "string \<Rightarrow> error + int" where
  "Year_of col =
     (case extract_digits col of
        None \<Rightarrow> Inl ValueError
      | Some ds \<Rightarrow> astype_int (StrCell ds))"

definition with_Year :: "detail_row \<times> string \<times> int \<Rightarrow> error + melted_row" where
  "with_Year t =
     (case t of (d, col, p) \<Rightarrow>
        (case Year_of col of Inl e \<Rightarrow> Inl e | Inr y \<Rightarrow> Inr (long_form d y p)))"

definition melted_key :: "melted_row \<Rightarrow> string \<times> int \<times> string \<times> int" where
  "melted_key r =
     (melted_row.name r, melted_row.Year r, melted_row.sex r, melted_row.age_numeric r)"

definition preprocess_age_gender_data ::
  "raw_row list \<Rightarrow> error + (detail_row list \<times> melted_row list)" where
  "preprocess_age_gender_data df_age_gender_raw =
     (case mapE detail_of df_age_gender_raw of
        Inl e \<Rightarrow> Inl e
      | Inr df_age_gender_detail \<Rightarrow>
          (case mapE with_Year (melt df_age_gender_detail) of
             Inl e \<Rightarrow> Inl e
           | Inr df_age_gender_melted \<Rightarrow>
               Inr (df_age_gender_detail, sort_key melted_key df_age_gender_melted)))"

text \<open>The melted table as lines 51 to 58 leave it, before the sort of line 59.\<close>

definition melted_unsorted :: "detail_row list \<Rightarrow> melted_row list" where
  "melted_unsorted detail =
     map (\<lambda>d. long_form d 2011 (raw_row.population_2011 d)) detail @
     map (\<lambda>d. long_form d 2022 (raw_row.population_2022 d)) detail"

definition detail_key :: "'a raw_row_scheme \<Rightarrow> string \<times> string \<times> cell" where
  "detail_key r = (raw_row.name r, raw_row.sex r, raw_row.age r)"

definition long_key :: "melted_row \<Rightarrow> string \<times> string \<times> cell" where
  "long_key m = (melted_row.name m, melted_row.sex m, melted_row.age m)"


subsection \<open>The density table\<close>

record 'f raw_density_row =
  Name :: string
  Code :: string
  Geography :: string
  Area_sq_km :: 'f
  Estimated_Population_mid_2022 :: int
  people_per_sq_km_2022 :: 'f
  Estimated_Population_mid_2011 :: int
  people_per_sq_km_2011 :: 'f

record 'f density_row =
  name :: string
  code :: string
  geography :: string
  area_sq_km :: 'f
  population_2022 :: int
  density_2022 :: 'f
  population_2011 :: int
  density_2011 :: 'f

text \<open>Lines 26 to 37: the eight columns get their new names; no row is touched.\<close>

definition rename :: "'f raw_density_row \<Rightarrow> 'f density_row" where
  "rename r =
     \<lparr>density_row.name = Name r,
      density_row.code = Code r,
      density_row.geography = Geography r,
      density_row.area_sq_km = Area_sq_km r,
      density_row.population_2022 = Estimated_Population_mid_2022 r,
      density_row.density_2022 = people_per_sq_km_2022 r,
      density_row.population_2011 = Estimated_Population_mid_2011 r,
      density_row.density_2011 = people_per_sq_km_2011 r\<rparr>"

definition preprocess_density_data :: "'f raw_density_row list \<Rightarrow> 'f density_row list" where
  "preprocess_density_data df_density_raw = map rename df_density_raw"

subsection \<open>Figures\<close>

text \<open>
  A figure is its list of traces and the layout entries that differ between the charts.
  The entries that are the same constant in every chart of the script (background colours,
  font, margins, hover mode) and the hover templates are left out.
\<close>

definition COLOR_PRIMARY :: string where "COLOR_PRIMARY = ''#56B4E9''"
definition COLOR_SECONDARY :: string where "COLOR_SECONDARY = ''#999999''"
definition COLOR_MALE :: string where "COLOR_MALE = ''#0072B2''"
definition COLOR_FEMALE :: string where "COLOR_FEMALE = ''#E69F00''"

record 'y bar =
  bar_x :: "string list"
  bar_y :: "'y list"
  bar_name :: string
  marker_color :: string

record 'y figure =
  data :: "'y bar list"
  title :: string
  xaxis_visible :: bool
  yaxis_visible :: bool
  xaxis_title :: string
  yaxis_title :: string
  barmode :: string
  legend_title_text :: string
  categoryarray :: "string list"

text \<open>
  Lines 78 to 88: a new figure has no trace and visible axes; the placeholder sets the title
  and hides both axes.
\<close>

definition create_empty_figure :: "string \<Rightarrow> 'y figure" where
  "create_empty_figure title_text =
     \<lparr>data = [], title = title_text, xaxis_visible = False, yaxis_visible = False,
      xaxis_title = [], yaxis_title = [], barmode = [], legend_title_text = [],
      categoryarray = []\<rparr>"

subsection \<open>Section 1: population density comparison\<close>


text \<open>Lines 105 to 107.\<close>

definition filtered_df_density :: "'f density_row list \<Rightarrow> string list \<Rightarrow> 'f density_row list" where
  "filtered_df_density df_density selected_density_locations =
     sort_key density_row.name
       (filter (\<lambda>r. density_row.name r \<in> set selected_density_locations) df_density)"

text \<open>Lines 102 to 140: the figure handed to \<^verbatim>\<open>st.plotly_chart\<close>.\<close>

definition fig_density :: "'f density_row list \<Rightarrow> string list \<Rightarrow> 'f figure" where
  "fig_density df_density selected_density_locations =
     (if selected_density_locations = [] then
        create_empty_figure ''Please select at least one location for density comparison.''
      else
        let filtered = filtered_df_density df_density selected_density_locations
        in \<lparr>data =
               [\<lparr>bar_x = map density_row.name filtered,
                 bar_y = map density_row.density_2011 filtered,
                 bar_name = ''Density 2011'', marker_color = COLOR_SECONDARY\<rparr>,
                \<lparr>bar_x = map density_row.name filtered,
                 bar_y = map density_row.density_2022 filtered,
                 bar_name = ''Density 2022'', marker_color = COLOR_PRIMARY\<rparr>],
             title = ''Population Density: 2011 vs 2022'',
             xaxis_visible = True, yaxis_visible = True,
             xaxis_title = ''Location'',
             yaxis_title = ''People per Square Kilometer'',
             barmode = ''group'', legend_title_text = ''Year'',
             categoryarray = sort selected_density_locations\<rparr>)"

subsection \<open>Section 3: gender population comparison\<close>

text \<open>Lines 239 to 248: the year and location filter, then the band filter.\<close>

definition filtered_df_gender_melted ::
  "melted_row list \<Rightarrow> int \<Rightarrow> string list \<Rightarrow> string \<Rightarrow> melted_row list" where
  "filtered_df_gender_melted df_age_gender_melted selected_gender_comp_year
       selected_gender_comp_locs selected_gender_comp_age_band =
     (let filtered =
            filter (\<lambda>r. melted_row.Year r = selected_gender_comp_year \<and>
                         melted_row.name r \<in> set selected_gender_comp_locs)
              df_age_gender_melted
      in if selected_gender_comp_age_band \<noteq> ''All Ages'' then
           filter (\<lambda>r. melted_row.age_band r = Some selected_gender_comp_age_band) filtered
         else filtered)"

definition age_title_part :: "string \<Rightarrow> string" where
  "age_title_part selected_gender_comp_age_band =
     (if selected_gender_comp_age_band \<noteq> ''All Ages''
      then ''('' @ selected_gender_comp_age_band @ '')''
      else ''(All Ages)'')"

record grouped_row =
  name :: string
  sex :: string
  Population :: int

text \<open>
  Lines 251 to 253: \<^verbatim>\<open>groupby(['name', 'sex'])['Population'].sum().reset_index()\<close>
  gives one row for each pair of name and sex that occurs, in ascending order of the pairs,
  with the sum of the group's populations.
\<close>

definition group_keys :: "melted_row list \<Rightarrow> (string \<times> string) list" where
  "group_keys rows = sort (remdups (map (\<lambda>r. (melted_row.name r, melted_row.sex r)) rows))"

definition groupby_sum :: "melted_row list \<Rightarrow> grouped_row list" where
  "groupby_sum rows =
     map (\<lambda>k. \<lparr>grouped_row.name = fst k, grouped_row.sex = snd k,
                grouped_row.Population =
                  sum_list (map melted_row.Population
                    (filter (\<lambda>r. (melted_row.name r, melted_row.sex r) = k) rows))\<rparr>)
       (group_keys rows)"

definition grouped_df_gender ::
  "melted_row list \<Rightarrow> int \<Rightarrow> string list \<Rightarrow> string \<Rightarrow> grouped_row list" where
  "grouped_df_gender df_age_gender_melted selected_gender_comp_year
       selected_gender_comp_locs selected_gender_comp_age_band =
     groupby_sum (filtered_df_gender_melted df_age_gender_melted selected_gender_comp_year
       selected_gender_comp_locs selected_gender_comp_age_band)"

text \<open>Line 258: the grouped table in the order the chart uses.\<close>

definition grouped_key :: "grouped_row \<Rightarrow> string \<times> string" where
  "grouped_key g = (grouped_row.name g, grouped_row.sex g)"

definition grouped_df_gender_sorted ::
  "melted_row list \<Rightarrow> int \<Rightarrow> string list \<Rightarrow> string \<Rightarrow> grouped_row list" where
  "grouped_df_gender_sorted df_age_gender_melted selected_gender_comp_year
       selected_gender_comp_locs selected_gender_comp_age_band =
     sort_key grouped_key
       (grouped_df_gender df_age_gender_melted selected_gender_comp_year
          selected_gender_comp_locs selected_gender_comp_age_band)"

text \<open>
  Lines 236 to 301. Python's \<^verbatim>\<open>not\<close> holds of an empty list, of the number 0 and of an
  empty string.
\<close>

definition fig_gender_comp ::
  "melted_row list \<Rightarrow> int \<Rightarrow> string list \<Rightarrow> string \<Rightarrow> int figure" where
  "fig_gender_comp df_age_gender_melted selected_gender_comp_year
       selected_gender_comp_locs selected_gender_comp_age_band =
     (if selected_gender_comp_locs = [] \<or> selected_gender_comp_year = 0
         \<or> selected_gender_comp_age_band = [] then
        create_empty_figure ''Select year, location(s), and age band for gender comparison.''
      else if grouped_df_gender df_age_gender_melted selected_gender_comp_year
                selected_gender_comp_locs selected_gender_comp_age_band = [] then
        create_empty_figure
          (''No data for selection in '' @ str_int selected_gender_comp_year @ '' ''
             @ age_title_part selected_gender_comp_age_band)
      else
        let grouped = grouped_df_gender_sorted df_age_gender_melted selected_gender_comp_year
                        selected_gender_comp_locs selected_gender_comp_age_band;
            df_female = filter (\<lambda>g. grouped_row.sex g = ''F'') grouped;
            df_male = filter (\<lambda>g. grouped_row.sex g = ''M'') grouped
        in \<lparr>data =
               [\<lparr>bar_x = map grouped_row.name df_female,
                 bar_y = map grouped_row.Population df_female,
                 bar_name = ''Female'', marker_color = COLOR_FEMALE\<rparr>,
                \<lparr>bar_x = map grouped_row.name df_male,
                 bar_y = map grouped_row.Population df_male,
                 bar_name = ''Male'', marker_color = COLOR_MALE\<rparr>],
             title = ''Population by Gender in '' @ str_int selected_gender_comp_year @ '' ''
                       @ age_title_part selected_gender_comp_age_band,
             xaxis_visible = True, yaxis_visible = True,
             xaxis_title = ''Location'', yaxis_title = ''Population'',
             barmode = ''group'', legend_title_text = ''Gender'',
             categoryarray = sort selected_gender_comp_locs\<rparr>)"

subsection \<open>Example tables\<close>

text \<open>Small tables on which the properties below are also checked by evaluation.\<close>

definition example_raw :: "raw_row list" where
  "example_raw =
     [\<lparr>raw_row.name = ''SCOTLAND'', raw_row.sex = ''F'', raw_row.age = StrCell ''17'',
       raw_row.population_2011 = 10, raw_row.population_2022 = 20\<rparr>,
      \<lparr>raw_row.name = ''SCOTLAND'', raw_row.sex = ''M'', raw_row.age = StrCell ''18'',
       raw_row.population_2011 = 30, raw_row.population_2022 = 40\<rparr>,
      \<lparr>raw_row.name = ''SCOTLAND'', raw_row.sex = ''F'', raw_row.age = StrCell ''90+'',
       raw_row.population_2011 = 5, raw_row.population_2022 = 6\<rparr>]"

definition example_detail :: "detail_row list" where
  "example_detail =
     [\<lparr>raw_row.name = ''SCOTLAND'', raw_row.sex = ''F'', raw_row.age = StrCell ''17'',
       raw_row.population_2011 = 10, raw_row.population_2022 = 20,
       detail_row.age_numeric = 17, detail_row.age_band = Some ''0-17''\<rparr>,
      \<lparr>raw_row.name = ''SCOTLAND'', raw_row.sex = ''M'', raw_row.age = StrCell ''18'',
       raw_row.population_2011 = 30, raw_row.population_2022 = 40,
       detail_row.age_numeric = 18, detail_row.age_band = Some ''18-24''\<rparr>,
      \<lparr>raw_row.name = ''SCOTLAND'', raw_row.sex = ''F'', raw_row.age = StrCell ''90+'',
       raw_row.population_2011 = 5, raw_row.population_2022 = 6,
       detail_row.age_numeric = 90, detail_row.age_band = Some ''75+''\<rparr>]"

definition example_melted :: "melted_row list" where
  "example_melted =
     [long_form (example_detail ! 0) 2011 10, long_form (example_detail ! 2) 2011 5,
      long_form (example_detail ! 1) 2011 30,
      long_form (example_detail ! 0) 2022 20, long_form (example_detail ! 2) 2022 6,
      long_form (example_detail ! 1) 2022 40]"

definition example_raw_other :: "raw_row list" where
  "example_raw_other =
     [\<lparr>raw_row.name = ''ENGLAND'', raw_row.sex = ''X'', raw_row.age = IntCell 30,
       raw_row.population_2011 = 1, raw_row.population_2022 = 2\<rparr>,
      \<lparr>raw_row.name = ''ENGLAND'', raw_row.sex = ''M'', raw_row.age = IntCell 30,
       raw_row.population_2011 = 30, raw_row.population_2022 = 40\<rparr>,
      \<lparr>raw_row.name = ''ENGLAND'', raw_row.sex = ''F'', raw_row.age = IntCell 30,
       raw_row.population_2011 = 50, raw_row.population_2022 = 60\<rparr>]"

definition example_detail_other :: "detail_row list" where
  "example_detail_other =
     [\<lparr>raw_row.name = ''ENGLAND'', raw_row.sex = ''X'', raw_row.age = IntCell 30,
       raw_row.population_2011 = 1, raw_row.population_2022 = 2,
       detail_row.age_numeric = 30, detail_row.age_band = Some ''25-39''\<rparr>,
      \<lparr>raw_row.name = ''ENGLAND'', raw_row.sex = ''M'', raw_row.age = IntCell 30,
       raw_row.population_2011 = 30, raw_row.population_2022 = 40,
       detail_row.age_numeric = 30, detail_row.age_band = Some ''25-39''\<rparr>,
      \<lparr>raw_row.name = ''ENGLAND'', raw_row.sex = ''F'', raw_row.age = IntCell 30,
       raw_row.population_2011 = 50, raw_row.population_2022 = 60,
       detail_row.age_numeric = 30, detail_row.age_band = Some ''25-39''\<rparr>]"

definition example_melted_other :: "melted_row list" where
  "example_melted_other =
     [long_form (example_detail_other ! 2) 2011 50, long_form (example_detail_other ! 1) 2011 30,
      long_form (example_detail_other ! 0) 2011 1,
      long_form (example_detail_other ! 2) 2022 60, long_form (example_detail_other ! 1) 2022 40,
      long_form (example_detail_other ! 0) 2022 2]"

definition example_density_raw :: "real raw_density_row list" where
  "example_density_raw =
     [\<lparr>Name = ''WALES'', Code = ''W92000004'', Geography = ''Country'',
       Area_sq_km = 20737, Estimated_Population_mid_2022 = 3131640,
       people_per_sq_km_2022 = 151, Estimated_Population_mid_2011 = 3063758,
       people_per_sq_km_2011 = 148\<rparr>,
      \<lparr>Name = ''SCOTLAND'', Code = ''S92000003'', Geography = ''Country'',
       Area_sq_km = 77910, Estimated_Population_mid_2022 = 5447700,
       people_per_sq_km_2022 = 70, Estimated_Population_mid_2011 = 5299900,
       people_per_sq_km_2011 = 68\<rparr>,
      \<lparr>Name = ''ENGLAND'', Code = ''E92000001'', Geography = ''Country'',
       Area_sq_km = 130310, Estimated_Population_mid_2022 = 57106398,
       people_per_sq_km_2022 = 438, Estimated_Population_mid_2011 = 53107169,
       people_per_sq_km_2011 = 408\<rparr>]"

definition example_raw_negative :: "raw_row list" where
  "example_raw_negative =
     [\<lparr>raw_row.name = ''ENGLAND'', raw_row.sex = ''F'', raw_row.age = StrCell ''-5'',
       raw_row.population_2011 = 10, raw_row.population_2022 = 20\<rparr>,
      \<lparr>raw_row.name = ''ENGLAND'', raw_row.sex = ''F'', raw_row.age = StrCell ''90+'',
       raw_row.population_2011 = 1, raw_row.population_2022 = 2\<rparr>]"

definition example_detail_negative :: "detail_row list" where
  "example_detail_negative =
     [\<lparr>raw_row.name = ''ENGLAND'', raw_row.sex = ''F'', raw_row.age = StrCell ''-5'',
       raw_row.population_2011 = 10, raw_row.population_2022 = 20,
       detail_row.age_numeric = - 5, detail_row.age_band = None\<rparr>,
      \<lparr>raw_row.name = ''ENGLAND'', raw_row.sex = ''F'', raw_row.age = StrCell ''90+'',
       raw_row.population_2011 = 1, raw_row.population_2022 = 2,
       detail_row.age_numeric = 90, detail_row.age_band = Some ''75+''\<rparr>]"

definition example_melted_negative :: "melted_row list" where
  "example_melted_negative =
     [long_form (example_detail_negative ! 0) 2011 10,
      long_form (example_detail_negative ! 1) 2011 1,
      long_form (example_detail_negative ! 0) 2022 20,
      long_form (example_detail_negative ! 1) 2022 2]"

section \<open>Properties\<close>

subsection \<open>Error propagation through a column\<close>

lemma mapE_Inr_iff: "mapE f xs = Inr ys \<longleftrightarrow> list_all2 (\<lambda>x y. f x = Inr y) xs ys"
proof (induction xs arbitrary: ys)
  case Nil
  then show ?case by auto
next
  case (Cons x xs)
  show ?case
  proof (cases "f x")
    case (Inl e)
    then show ?thesis by (auto simp: list_all2_Cons1)
  next
    case (Inr y)
    then show ?thesis
      using Cons.IH by (cases "mapE f xs") (auto simp: list_all2_Cons1)
  qed
qed

lemma mapE_map: "(\<And>x. x \<in> set xs \<Longrightarrow> f x = Inr (g x)) \<Longrightarrow> mapE f xs = Inr (map g xs)"
  by (induction xs) auto

lemma mapE_Inl_source: "mapE f xs = Inl e \<Longrightarrow> \<exists>x\<in>set xs. f x = Inl e"
  by (induction xs) (auto split: sum.splits)


lemma list_all2_set2: "list_all2 P xs ys \<Longrightarrow> y \<in> set ys \<Longrightarrow> \<exists>x\<in>set xs. P x y"
  by (induction rule: list_all2_induct) auto

subsection \<open>Characters and decimal numerals\<close>




















subsection \<open>Bands\<close>

lemma cut_bins: "pd_cut v bins labels =
  (if v \<le> - 1 then None else if v \<le> 17 then Some ''0-17'' else if v \<le> 24 then Some ''18-24''
   else if v \<le> 39 then Some ''25-39'' else if v \<le> 59 then Some ''40-59''
   else if v \<le> 74 then Some ''60-74'' else Some ''75+'')"
  by (simp add: bins_def labels_def)

lemma cut_in_labels: "0 \<le> v \<Longrightarrow> pd_cut v bins labels \<in> Some ` set labels"
  unfolding cut_bins by (simp add: labels_def)

subsection \<open>The detail table\<close>

lemmas parse_eval = astype_int_def replace_def py_int_def is_space_def is_digit_def
  digits_value_def digit_val_def int64_min_def int64_max_def max_str_digits_def

lemmas preprocess_eval = preprocess_age_gender_data_def detail_of_def parse_eval cut_bins
  melt_def value_vars_def with_Year_def Year_of_def extract_digits_def melted_key_def

lemma detail_of_band:
  "detail_of r = Inr d \<Longrightarrow> detail_row.age_band d = pd_cut (detail_row.age_numeric d) bins labels"
  by (auto simp: detail_of_def split: sum.splits)


lemma detail_of_age_numeric:
  "detail_of r = Inr d \<longleftrightarrow>
     (\<exists>n. astype_int (replace (StrCell ''90+'') (IntCell 90) (raw_row.age r)) = Inr n \<and>
          d = \<lparr>raw_row.name = raw_row.name r, raw_row.sex = raw_row.sex r,
                raw_row.age = raw_row.age r,
                raw_row.population_2011 = raw_row.population_2011 r,
                raw_row.population_2022 = raw_row.population_2022 r,
                detail_row.age_numeric = n,
                detail_row.age_band = pd_cut n bins labels\<rparr>)"
  by (auto simp: detail_of_def split: sum.splits)

lemma detail_of_Inl:
  "detail_of r = Inl e \<longleftrightarrow>
     astype_int (replace (StrCell ''90+'') (IntCell 90) (raw_row.age r)) = Inl e"
  by (auto simp: detail_of_def split: sum.splits)

lemma preprocess_detail:
  "preprocess_age_gender_data raw = Inr (detail, melted) \<Longrightarrow>
     list_all2 (\<lambda>r d. detail_of r = Inr d) raw detail"
  by (auto simp: preprocess_age_gender_data_def mapE_Inr_iff split: sum.splits)

lemma detail_row_source:
  assumes "preprocess_age_gender_data raw = Inr (detail, melted)" "d \<in> set detail"
  shows "\<exists>r\<in>set raw. detail_of r = Inr d"
  using preprocess_detail[OF assms(1)] assms(2) by (rule list_all2_set2)


subsection \<open>Age banding\<close>

text \<open>
  C2 (as amended). For every row of the detail table whose \<open>age_numeric\<close> is not negative,
  \<open>age_band\<close> is one of the six labels, which are pairwise different, and it is the label
  of the right-closed interval that holds \<open>age_numeric\<close>: up to 17, 18 to 24, 25 to 39,
  40 to 59, 60 to 74, above 74.
\<close>

theorem age_band_right_closed:
  assumes "preprocess_age_gender_data raw = Inr (detail, melted)" "d \<in> set detail"
    and "0 \<le> detail_row.age_numeric d"
  shows "detail_row.age_band d \<in> Some ` set labels \<and> distinct labels
    \<and> (detail_row.age_numeric d \<le> 17 \<longrightarrow> detail_row.age_band d = Some ''0-17'')
    \<and> (17 < detail_row.age_numeric d \<and> detail_row.age_numeric d \<le> 24
          \<longrightarrow> detail_row.age_band d = Some ''18-24'')
    \<and> (24 < detail_row.age_numeric d \<and> detail_row.age_numeric d \<le> 39
          \<longrightarrow> detail_row.age_band d = Some ''25-39'')
    \<and> (39 < detail_row.age_numeric d \<and> detail_row.age_numeric d \<le> 59
          \<longrightarrow> detail_row.age_band d = Some ''40-59'')
    \<and> (59 < detail_row.age_numeric d \<and> detail_row.age_numeric d \<le> 74
          \<longrightarrow> detail_row.age_band d = Some ''60-74'')
    \<and> (74 < detail_row.age_numeric d \<longrightarrow> detail_row.age_band d = Some ''75+'')"
proof -
  obtain r where "detail_of r = Inr d"
    using detail_row_source[OF assms(1,2)] by blast
  then have b: "detail_row.age_band d = pd_cut (detail_row.age_numeric d) bins labels"
    by (rule detail_of_band)
  have 1: "detail_row.age_band d \<in> Some ` set labels"
    unfolding b using assms(3) by (rule cut_in_labels)
  have 2: "distinct labels" by (simp add: labels_def)
  have 3: "detail_row.age_numeric d \<le> 17 \<longrightarrow> detail_row.age_band d = Some ''0-17''"
    unfolding b cut_bins using assms(3) by simp
  have 4: "17 < detail_row.age_numeric d \<and> detail_row.age_numeric d \<le> 24
      \<longrightarrow> detail_row.age_band d = Some ''18-24''"
    unfolding b cut_bins by simp
  have 5: "24 < detail_row.age_numeric d \<and> detail_row.age_numeric d \<le> 39
      \<longrightarrow> detail_row.age_band d = Some ''25-39''"
    unfolding b cut_bins by simp
  have 6: "39 < detail_row.age_numeric d \<and> detail_row.age_numeric d \<le> 59
      \<longrightarrow> detail_row.age_band d = Some ''40-59''"
    unfolding b cut_bins by simp
  have 7: "59 < detail_row.age_numeric d \<and> detail_row.age_numeric d \<le> 74
      \<longrightarrow> detail_row.age_band d = Some ''60-74''"
    unfolding b cut_bins by simp
  have 8: "74 < detail_row.age_numeric d \<longrightarrow> detail_row.age_band d = Some ''75+''"
    unfolding b cut_bins by simp
  from 1 2 3 4 5 6 7 8 show ?thesis by blast
qed

lemma preprocess_example: 
  "preprocess_age_gender_data example_raw = Inr (example_detail, example_melted)"
  by (simp add: example_raw_def example_detail_def example_melted_def long_form_def
      preprocess_eval)

theorem age_band_right_closed_witness:
  "preprocess_age_gender_data example_raw = Inr (example_detail, example_melted)
   \<and> example_detail ! 0 \<in> set example_detail
   \<and> 0 \<le> detail_row.age_numeric (example_detail ! 0)
   \<and> detail_row.age_numeric (example_detail ! 0) = 17
   \<and> detail_row.age_band (example_detail ! 0) = Some ''0-17''
   \<and> example_detail ! 1 \<in> set example_detail
   \<and> 0 \<le> detail_row.age_numeric (example_detail ! 1)
   \<and> detail_row.age_numeric (example_detail ! 1) = 18
   \<and> detail_row.age_band (example_detail ! 1) = Some ''18-24''
   \<and> example_detail ! 2 \<in> set example_detail
   \<and> 0 \<le> detail_row.age_numeric (example_detail ! 2)
   \<and> detail_row.age_numeric (example_detail ! 2) = 90
   \<and> detail_row.age_band (example_detail ! 2) = Some ''75+''"
proof -
  have m: "example_detail ! 0 \<in> set example_detail" "example_detail ! 1 \<in> set example_detail"
    "example_detail ! 2 \<in> set example_detail"
    by (simp_all add: example_detail_def)
  have n: "detail_row.age_numeric (example_detail ! 0) = 17"
    "detail_row.age_numeric (example_detail ! 1) = 18"
    "detail_row.age_numeric (example_detail ! 2) = 90"
    by (simp_all add: example_detail_def)
  show ?thesis
    using age_band_right_closed[OF preprocess_example m(1)]
      age_band_right_closed[OF preprocess_example m(2)]
      age_band_right_closed[OF preprocess_example m(3)]
      preprocess_example m n
    by simp
qed

text \<open>
  C2 as stated fails: a raw age \<open>-5\<close> passes the parser, and its detail row has no band
  (the other row of the table, of age \<open>90+\<close>, has the band \<open>75+\<close>).
\<close>

theorem age_band_negative_counterexample:
  "preprocess_age_gender_data example_raw_negative =
     Inr (example_detail_negative, example_melted_negative)
   \<and> raw_row.age (example_detail_negative ! 0) = StrCell ''-5''
   \<and> detail_row.age_numeric (example_detail_negative ! 0) = - 5
   \<and> detail_row.age_band (example_detail_negative ! 0) = None"
  by (simp add: example_raw_negative_def example_detail_negative_def
      example_melted_negative_def long_form_def preprocess_eval)

subsection \<open>Age parsing\<close>




subsection \<open>The melted table\<close>

lemma Year_of_cols:
  "Year_of ''population_2011'' = Inr 2011" "Year_of ''population_2022'' = Inr 2022"
  by (simp_all add: Year_of_def extract_digits_def parse_eval)

lemma with_Year_cols:
  "with_Year (d, ''population_2011'', p) = Inr (long_form d 2011 p)"
  "with_Year (d, ''population_2022'', p) = Inr (long_form d 2022 p)"
  by (simp_all add: with_Year_def Year_of_cols)

lemma melt_append:
  "melt detail =
     map (\<lambda>d. (d, ''population_2011'', raw_row.population_2011 d)) detail @
     map (\<lambda>d. (d, ''population_2022'', raw_row.population_2022 d)) detail"
  by (simp add: melt_def value_vars_def)

lemma mapE_append:
  "mapE f xs = Inr us \<Longrightarrow> mapE f ys = Inr vs \<Longrightarrow> mapE f (xs @ ys) = Inr (us @ vs)"
  by (simp add: mapE_Inr_iff list_all2_appendI)

lemma melt_with_Year: "mapE with_Year (melt detail) = Inr (melted_unsorted detail)"
proof -
  have a: "mapE with_Year (map (\<lambda>d. (d, ''population_2011'', raw_row.population_2011 d)) detail)
      = Inr (map (\<lambda>d. long_form d 2011 (raw_row.population_2011 d)) detail)"
    by (induction detail) (simp_all add: with_Year_cols)
  have b: "mapE with_Year (map (\<lambda>d. (d, ''population_2022'', raw_row.population_2022 d)) detail)
      = Inr (map (\<lambda>d. long_form d 2022 (raw_row.population_2022 d)) detail)"
    by (induction detail) (simp_all add: with_Year_cols)
  show ?thesis
    unfolding melt_append melted_unsorted_def using a b by (rule mapE_append)
qed

lemma preprocess_melted:
  assumes "preprocess_age_gender_data raw = Inr (detail, melted)"
  shows "melted = sort_key melted_key (melted_unsorted detail)"
  using assms
  by (auto simp: preprocess_age_gender_data_def melt_with_Year split: sum.splits)

lemma preprocess_total:
  "mapE detail_of raw = Inr detail \<Longrightarrow>
     preprocess_age_gender_data raw =
       Inr (detail, sort_key melted_key (melted_unsorted detail))"
  by (simp add: preprocess_age_gender_data_def melt_with_Year)

text \<open>
  C7. The melted table is in ascending order of (name, Year, sex, age_numeric), it has the
  rows that the melt of lines 51 to 58 produced, and rows with the same four keys are in the
  order they had before the sort.
\<close>

theorem melted_sorted_stable:
  assumes "preprocess_age_gender_data raw = Inr (detail, melted)"
  shows "sorted (map melted_key melted) \<and>
    (\<exists>pre. mapE with_Year (melt detail) = Inr pre \<and> mset melted = mset pre \<and>
       (\<forall>k. filter (\<lambda>r. melted_key r = k) melted = filter (\<lambda>r. melted_key r = k) pre))"
proof -
  have m: "melted = sort_key melted_key (melted_unsorted detail)"
    using assms by (rule preprocess_melted)
  have 1: "sorted (map melted_key melted)"
    unfolding m by simp
  have 2: "mset melted = mset (melted_unsorted detail)"
    unfolding m by simp
  have 3: "filter (\<lambda>r. melted_key r = k) melted =
      filter (\<lambda>r. melted_key r = k) (melted_unsorted detail)" for k
    unfolding m by (rule sort_key_stable)
  from 1 2 3 melt_with_Year show ?thesis by blast
qed

theorem melted_sorted_stable_witness:
  "preprocess_age_gender_data example_raw = Inr (example_detail, example_melted)
   \<and> sorted (map melted_key example_melted)
   \<and> map melted_key example_melted =
       [(''SCOTLAND'', 2011, ''F'', 17), (''SCOTLAND'', 2011, ''F'', 90),
        (''SCOTLAND'', 2011, ''M'', 18), (''SCOTLAND'', 2022, ''F'', 17),
        (''SCOTLAND'', 2022, ''F'', 90), (''SCOTLAND'', 2022, ''M'', 18)]"
proof -
  have "map melted_key example_melted =
       [(''SCOTLAND'', 2011, ''F'', 17), (''SCOTLAND'', 2011, ''F'', 90),
        (''SCOTLAND'', 2011, ''M'', 18), (''SCOTLAND'', 2022, ''F'', 17),
        (''SCOTLAND'', 2022, ''F'', 90), (''SCOTLAND'', 2022, ''M'', 18)]"
    by (simp add: example_melted_def example_detail_def long_form_def melted_key_def)
  then show ?thesis
    using melted_sorted_stable[OF preprocess_example] preprocess_example by simp
qed

subsection \<open>Unpivoting\<close>



lemma long_key_long_form [simp]: "long_key (long_form d y p) = detail_key d"
  by (simp add: long_key_def long_form_def detail_key_def)







subsection \<open>Sums over the melted table and over groups\<close>






lemma group_keys_props:
  "distinct (group_keys rows)" "sorted (group_keys rows)"
  "set (group_keys rows) = (\<lambda>r. (melted_row.name r, melted_row.sex r)) ` set rows"
  by (simp_all add: group_keys_def)

lemma groupby_sum_keys: "map grouped_key (groupby_sum rows) = group_keys rows"
  by (simp add: groupby_sum_def grouped_key_def o_def)


subsection \<open>The gender comparison total\<close>



lemma grouped_example:
  "grouped_df_gender example_melted 2022 [''SCOTLAND''] ''All Ages'' =
     [\<lparr>grouped_row.name = ''SCOTLAND'', grouped_row.sex = ''F'', grouped_row.Population = 26\<rparr>,
      \<lparr>grouped_row.name = ''SCOTLAND'', grouped_row.sex = ''M'', grouped_row.Population = 40\<rparr>]"
  by (simp add: grouped_df_gender_def filtered_df_gender_melted_def groupby_sum_def
      group_keys_def example_melted_def example_detail_def long_form_def)


subsection \<open>The gender comparison for one band\<close>




lemma groupby_sum_covers:
  "r \<in> set rows \<Longrightarrow>
     \<exists>g\<in>set (groupby_sum rows). grouped_row.name g = melted_row.name r \<and>
                                  grouped_row.sex g = melted_row.sex r"
proof -
  assume "r \<in> set rows"
  then have "(melted_row.name r, melted_row.sex r) \<in> set (group_keys rows)"
    by (auto simp: group_keys_props(3))
  then show ?thesis
    by (force simp: groupby_sum_def)
qed









subsection \<open>The grouped table and the chart series\<close>

lemma grouped_sorted_id:
  "grouped_df_gender_sorted melted year locs band = grouped_df_gender melted year locs band"
  unfolding grouped_df_gender_sorted_def grouped_df_gender_def
  by (rule sort_key_id_if_sorted) (simp add: groupby_sum_keys group_keys_props(2))

lemma length_filter_distinct_key:
  "distinct (map k xs) \<Longrightarrow> length (filter (\<lambda>x. k x = v) xs) \<le> 1"
proof (induction xs)
  case Nil
  then show ?case by simp
next
  case (Cons a xs)
  show ?case
  proof (cases "k a = v")
    case True
    then have "v \<notin> k ` set xs" using Cons.prems by simp
    then have "\<forall>x\<in>set xs. k x \<noteq> v" by (metis imageI)
    then have "filter (\<lambda>x. k x = v) xs = []" by (simp add: filter_empty_conv)
    then show ?thesis using True by simp
  next
    case False
    then show ?thesis using Cons by simp
  qed
qed

text \<open>
  C10. In the grouped table, as the chart uses it, no pair of name and sex occurs twice and
  the pairs are in ascending order; so there is at most one row for a name and a sex, and
  the \<open>F\<close> row of a name comes before its \<open>M\<close> row.
\<close>

theorem grouped_key_unique:
  "distinct (map grouped_key (grouped_df_gender_sorted melted year locs band))
   \<and> sorted (map grouped_key (grouped_df_gender_sorted melted year locs band))
   \<and> (\<forall>n s. length (filter (\<lambda>g. grouped_row.name g = n \<and> grouped_row.sex g = s)
                  (grouped_df_gender_sorted melted year locs band)) \<le> 1)
   \<and> (\<forall>i j. i < length (grouped_df_gender_sorted melted year locs band)
          \<and> j < length (grouped_df_gender_sorted melted year locs band)
          \<and> grouped_row.name (grouped_df_gender_sorted melted year locs band ! i) =
            grouped_row.name (grouped_df_gender_sorted melted year locs band ! j)
          \<and> grouped_row.sex (grouped_df_gender_sorted melted year locs band ! i) = ''F''
          \<and> grouped_row.sex (grouped_df_gender_sorted melted year locs band ! j) = ''M''
          \<longrightarrow> i < j)"
proof -
  let ?G = "grouped_df_gender_sorted melted year locs band"
  have k: "map grouped_key ?G =
      group_keys (filtered_df_gender_melted melted year locs band)"
    unfolding grouped_sorted_id grouped_df_gender_def by (rule groupby_sum_keys)
  have 1: "distinct (map grouped_key ?G)"
    unfolding k by (rule group_keys_props(1))
  have 2: "sorted (map grouped_key ?G)"
    unfolding k by (rule group_keys_props(2))
  have 3: "length (filter (\<lambda>g. grouped_row.name g = n \<and> grouped_row.sex g = s) ?G) \<le> 1"
    for n s
    using length_filter_distinct_key[OF 1, of "(n, s)"] by (simp add: grouped_key_def)
  have 4: "i < j"
    if "i < length ?G" "j < length ?G"
      "grouped_row.name (?G ! i) = grouped_row.name (?G ! j)"
      "grouped_row.sex (?G ! i) = ''F''" "grouped_row.sex (?G ! j) = ''M''" for i j
  proof (rule ccontr)
    assume "\<not> i < j"
    then have "j \<le> i" by simp
    then have "map grouped_key ?G ! j \<le> map grouped_key ?G ! i"
      using 2 that(1) by (simp add: sorted_nth_mono del: nth_map)
    then have "grouped_key (?G ! j) \<le> grouped_key (?G ! i)"
      using that(1,2) by simp
    then show False
      using that(3,4,5) by (simp add: grouped_key_def)
  qed
  from 1 2 3 4 show ?thesis by blast
qed

lemma preprocess_example_other:
  "preprocess_age_gender_data example_raw_other =
     Inr (example_detail_other, example_melted_other)"
  by (simp add: example_raw_other_def example_detail_other_def example_melted_other_def
      long_form_def preprocess_eval)

lemma grouped_example_other:
  "grouped_df_gender_sorted example_melted_other 2022 [''ENGLAND''] ''All Ages'' =
     [\<lparr>grouped_row.name = ''ENGLAND'', grouped_row.sex = ''F'', grouped_row.Population = 60\<rparr>,
      \<lparr>grouped_row.name = ''ENGLAND'', grouped_row.sex = ''M'', grouped_row.Population = 40\<rparr>,
      \<lparr>grouped_row.name = ''ENGLAND'', grouped_row.sex = ''X'', grouped_row.Population = 2\<rparr>]"
  by (simp add: grouped_df_gender_sorted_def grouped_key_def grouped_df_gender_def
      filtered_df_gender_melted_def groupby_sum_def
      group_keys_def example_melted_other_def example_detail_other_def long_form_def)

theorem grouped_key_unique_witness:
  "(0::nat) < length (grouped_df_gender_sorted example_melted_other 2022 [''ENGLAND''] ''All Ages'')
   \<and> (1::nat) < length (grouped_df_gender_sorted example_melted_other 2022 [''ENGLAND''] ''All Ages'')
   \<and> grouped_row.name (grouped_df_gender_sorted example_melted_other 2022 [''ENGLAND''] ''All Ages'' ! 0)
     = grouped_row.name (grouped_df_gender_sorted example_melted_other 2022 [''ENGLAND''] ''All Ages'' ! 1)
   \<and> grouped_row.sex (grouped_df_gender_sorted example_melted_other 2022 [''ENGLAND''] ''All Ages'' ! 0) = ''F''
   \<and> grouped_row.sex (grouped_df_gender_sorted example_melted_other 2022 [''ENGLAND''] ''All Ages'' ! 1) = ''M''
   \<and> (0::nat) < 1
   \<and> distinct (map grouped_key
        (grouped_df_gender_sorted example_melted_other 2022 [''ENGLAND''] ''All Ages''))"
  using grouped_key_unique[of example_melted_other 2022 "[''ENGLAND'']" "''All Ages''"]
  by (simp add: grouped_example_other)

text \<open>
  C9. When the gender comparison draws a chart (locations, year and band are given and the
  grouped table is not empty), the chart has two series: \<open>Female\<close>, with the names and
  populations of exactly the grouped rows of sex \<open>F\<close>, and \<open>Male\<close>, with those of exactly
  the grouped rows of sex \<open>M\<close>. Every pair of name and sex among the filtered long-form rows
  has its row in the grouped table, whatever the sex; a grouped row whose sex is neither
  \<open>F\<close> nor \<open>M\<close> is in neither series, so the bars are as many as the \<open>F\<close> and \<open>M\<close> rows.
\<close>

theorem gender_chart_series:
  assumes "locs \<noteq> []" "year \<noteq> 0" "band \<noteq> []"
    and "grouped_df_gender melted year locs band \<noteq> []"
  shows "data (fig_gender_comp melted year locs band) =
      [\<lparr>bar_x = map grouped_row.name
           (filter (\<lambda>g. grouped_row.sex g = ''F'') (grouped_df_gender_sorted melted year locs band)),
         bar_y = map grouped_row.Population
           (filter (\<lambda>g. grouped_row.sex g = ''F'') (grouped_df_gender_sorted melted year locs band)),
         bar_name = ''Female'', marker_color = COLOR_FEMALE\<rparr>,
       \<lparr>bar_x = map grouped_row.name
           (filter (\<lambda>g. grouped_row.sex g = ''M'') (grouped_df_gender_sorted melted year locs band)),
         bar_y = map grouped_row.Population
           (filter (\<lambda>g. grouped_row.sex g = ''M'') (grouped_df_gender_sorted melted year locs band)),
         bar_name = ''Male'', marker_color = COLOR_MALE\<rparr>]
    \<and> (\<forall>r\<in>set (filtered_df_gender_melted melted year locs band).
          \<exists>g\<in>set (grouped_df_gender_sorted melted year locs band).
            grouped_row.name g = melted_row.name r \<and> grouped_row.sex g = melted_row.sex r)
    \<and> (\<forall>g\<in>set (grouped_df_gender_sorted melted year locs band).
          grouped_row.sex g \<noteq> ''F'' \<and> grouped_row.sex g \<noteq> ''M'' \<longrightarrow>
          g \<notin> set (filter (\<lambda>g. grouped_row.sex g = ''F'')
                     (grouped_df_gender_sorted melted year locs band)) \<and>
          g \<notin> set (filter (\<lambda>g. grouped_row.sex g = ''M'')
                     (grouped_df_gender_sorted melted year locs band)))
    \<and> sum_list (map (\<lambda>b. length (bar_x b)) (data (fig_gender_comp melted year locs band))) =
        length (filter (\<lambda>g. grouped_row.sex g = ''F'' \<or> grouped_row.sex g = ''M'')
                  (grouped_df_gender_sorted melted year locs band))"
proof -
  let ?G = "grouped_df_gender_sorted melted year locs band"
  have 1: "data (fig_gender_comp melted year locs band) =
      [\<lparr>bar_x = map grouped_row.name (filter (\<lambda>g. grouped_row.sex g = ''F'') ?G),
         bar_y = map grouped_row.Population (filter (\<lambda>g. grouped_row.sex g = ''F'') ?G),
         bar_name = ''Female'', marker_color = COLOR_FEMALE\<rparr>,
       \<lparr>bar_x = map grouped_row.name (filter (\<lambda>g. grouped_row.sex g = ''M'') ?G),
         bar_y = map grouped_row.Population (filter (\<lambda>g. grouped_row.sex g = ''M'') ?G),
         bar_name = ''Male'', marker_color = COLOR_MALE\<rparr>]"
    using assms by (simp add: fig_gender_comp_def Let_def)
  have 2: "\<exists>g\<in>set ?G. grouped_row.name g = melted_row.name r \<and>
      grouped_row.sex g = melted_row.sex r"
    if "r \<in> set (filtered_df_gender_melted melted year locs band)" for r
    unfolding grouped_sorted_id grouped_df_gender_def using that by (rule groupby_sum_covers)
  have 3: "g \<notin> set (filter (\<lambda>g. grouped_row.sex g = ''F'') ?G) \<and>
      g \<notin> set (filter (\<lambda>g. grouped_row.sex g = ''M'') ?G)"
    if "grouped_row.sex g \<noteq> ''F'' \<and> grouped_row.sex g \<noteq> ''M''" for g
    using that by simp
  have "length (filter (\<lambda>g. grouped_row.sex g = ''F'' \<or> grouped_row.sex g = ''M'') xs) =
      length (filter (\<lambda>g. grouped_row.sex g = ''F'') xs) +
      length (filter (\<lambda>g. grouped_row.sex g = ''M'') xs)" for xs :: "grouped_row list"
    by (induction xs) auto
  then have 4: "sum_list (map (\<lambda>b. length (bar_x b)) (data (fig_gender_comp melted year locs band))) =
      length (filter (\<lambda>g. grouped_row.sex g = ''F'' \<or> grouped_row.sex g = ''M'') ?G)"
    unfolding 1 by simp
  from 1 2 3 4 show ?thesis by blast
qed

theorem gender_chart_series_witness:
  "[''ENGLAND''] \<noteq> [] \<and> (2022::int) \<noteq> 0 \<and> ''All Ages'' \<noteq> []
   \<and> grouped_df_gender example_melted_other 2022 [''ENGLAND''] ''All Ages'' \<noteq> []
   \<and> map grouped_row.sex
        (grouped_df_gender_sorted example_melted_other 2022 [''ENGLAND''] ''All Ages'') =
       [''F'', ''M'', ''X'']
   \<and> data (fig_gender_comp example_melted_other 2022 [''ENGLAND''] ''All Ages'') =
       [\<lparr>bar_x = [''ENGLAND''], bar_y = [60], bar_name = ''Female'',
          marker_color = COLOR_FEMALE\<rparr>,
        \<lparr>bar_x = [''ENGLAND''], bar_y = [40], bar_name = ''Male'',
          marker_color = COLOR_MALE\<rparr>]"
proof -
  have n: "grouped_df_gender example_melted_other 2022 [''ENGLAND''] ''All Ages'' \<noteq> []"
    using grouped_example_other by (simp add: grouped_sorted_id)
  have c: "[''ENGLAND''] \<noteq> []" "(2022::int) \<noteq> 0" "''All Ages'' \<noteq> []"
    by simp_all
  show ?thesis
    using gender_chart_series[OF c n] n by (simp add: grouped_example_other)
qed

subsection \<open>The density filter and its chart\<close>

lemma preprocess_density_example:
  "preprocess_density_data example_density_raw =
     [rename (example_density_raw ! 0), rename (example_density_raw ! 1),
      rename (example_density_raw ! 2)]"
  by (simp add: preprocess_density_data_def example_density_raw_def)


lemma filtered_density_example:
  "filtered_df_density (preprocess_density_data example_density_raw) [''WALES'', ''ENGLAND''] =
     [rename (example_density_raw ! 2), rename (example_density_raw ! 0)]"
  by (simp add: filtered_df_density_def preprocess_density_data_def example_density_raw_def
      rename_def)

text \<open>
  C4. For every selection, the density filter returns the rows of the renamed density table
  whose name is selected, each as often as the table has it and none else, in ascending
  order of the names; each returned row is the renamed raw row, so its other fields are
  those of the table. For a selection that is not empty these rows are what both series
  of the chart show.
\<close>

theorem density_filter_exact:
  "mset (filtered_df_density (preprocess_density_data raw) sel) =
     filter_mset (\<lambda>r. density_row.name r \<in> set sel) (mset (preprocess_density_data raw))
   \<and> mset (filtered_df_density (preprocess_density_data raw) sel) =
     image_mset rename (filter_mset (\<lambda>r. Name r \<in> set sel) (mset raw))
   \<and> sorted (map density_row.name (filtered_df_density (preprocess_density_data raw) sel))
   \<and> (sel \<noteq> [] \<longrightarrow>
        map bar_x (data (fig_density (preprocess_density_data raw) sel)) =
          [map density_row.name (filtered_df_density (preprocess_density_data raw) sel),
           map density_row.name (filtered_df_density (preprocess_density_data raw) sel)]
        \<and> map bar_y (data (fig_density (preprocess_density_data raw) sel)) =
          [map density_row.density_2011 (filtered_df_density (preprocess_density_data raw) sel),
           map density_row.density_2022 (filtered_df_density (preprocess_density_data raw) sel)])"
proof -
  let ?df = "preprocess_density_data raw"
  have 1: "mset (filtered_df_density ?df sel) =
      filter_mset (\<lambda>r. density_row.name r \<in> set sel) (mset ?df)"
    by (simp add: filtered_df_density_def)
  have "filter (\<lambda>r. density_row.name r \<in> set sel) (map rename raw) =
      map rename (filter (\<lambda>r. Name r \<in> set sel) raw)"
    by (simp add: filter_map o_def rename_def)
  then have "mset (filter (\<lambda>r. density_row.name r \<in> set sel) (map rename raw)) =
      mset (map rename (filter (\<lambda>r. Name r \<in> set sel) raw))"
    by (rule arg_cong)
  then have "filter_mset (\<lambda>r. density_row.name r \<in> set sel) (mset ?df) =
      image_mset rename (filter_mset (\<lambda>r. Name r \<in> set sel) (mset raw))"
    by (simp add: preprocess_density_data_def)
  with 1 have 2: "mset (filtered_df_density ?df sel) =
      image_mset rename (filter_mset (\<lambda>r. Name r \<in> set sel) (mset raw))"
    by simp
  have 3: "sorted (map density_row.name (filtered_df_density ?df sel))"
    by (simp add: filtered_df_density_def)
  have 4: "map bar_x (data (fig_density ?df sel)) =
          [map density_row.name (filtered_df_density ?df sel),
           map density_row.name (filtered_df_density ?df sel)]
        \<and> map bar_y (data (fig_density ?df sel)) =
          [map density_row.density_2011 (filtered_df_density ?df sel),
           map density_row.density_2022 (filtered_df_density ?df sel)]"
    if "sel \<noteq> []"
    using that by (simp add: fig_density_def Let_def)
  from 1 2 3 4 show ?thesis by blast
qed

theorem density_filter_exact_witness:
  "[''WALES'', ''ENGLAND''] \<noteq> []
   \<and> filtered_df_density (preprocess_density_data example_density_raw) [''WALES'', ''ENGLAND''] =
       [rename (example_density_raw ! 2), rename (example_density_raw ! 0)]
   \<and> map bar_x (data (fig_density (preprocess_density_data example_density_raw)
        [''WALES'', ''ENGLAND''])) = [[''ENGLAND'', ''WALES''], [''ENGLAND'', ''WALES'']]
   \<and> map bar_y (data (fig_density (preprocess_density_data example_density_raw)
        [''WALES'', ''ENGLAND''])) = [[408, 148], [438, 151]]"
proof -
  have a: "[''WALES'', ''ENGLAND''] \<noteq> []" by simp
  have b: "map density_row.name [rename (example_density_raw ! 2), rename (example_density_raw ! 0)]
      = [''ENGLAND'', ''WALES'']"
    "map density_row.density_2011
        [rename (example_density_raw ! 2), rename (example_density_raw ! 0)] = [408, 148]"
    "map density_row.density_2022
        [rename (example_density_raw ! 2), rename (example_density_raw ! 0)] = [438, 151]"
    by (simp_all add: example_density_raw_def rename_def)
  show ?thesis
    using density_filter_exact[of example_density_raw "[''WALES'', ''ENGLAND'']"] a b
    by (simp add: filtered_density_example)
qed




end
